theory Spec2Isabelle
  imports Main
begin

section \<open>The hasagi command-line dispatcher\<close>

text \<open>
  The repository is one script, \<^verbatim>\<open>src/bin/index.ts\<close>, and an older copy of it,
  \<^verbatim>\<open>src/unnamed/part_000\<close>.  The script parses its arguments, talks to the League
  client through \<^verbatim>\<open>@hasagi/core\<close> and \<^verbatim>\<open>@hasagi/schema\<close>, prints to the console and
  writes files.  It is embedded as a program over an explicit list of the external
  calls it makes (its trace); what each external call answers is read from a record of
  the outside world.
\<close>

subsection \<open>Values\<close>

text \<open>
  JSON data is only carried by the script (parsed from an option, received from the
  client, handed to \<^verbatim>\<open>JSON.stringify\<close>); the one value the script builds itself is an
  object literal.  Numbers are kept as integers.
\<close>

datatype json =
    JNull
  | JBool bool
  | JNum int
  | JStr string
  | JArr "json list"
  | JObj "(string \<times> json) list"

text \<open>The argument of \<^verbatim>\<open>client.request\<close>; an absent field is \<open>None\<close>, an unset flag \<open>False\<close>.\<close>

record request =
  req_method :: string
  req_url :: string
  req_data :: "json option"
  req_params :: "json option"
  returnAxiosResponse :: bool
  returnFullAxiosResponse :: bool

text \<open>
  The two error classes of \<^verbatim>\<open>@hasagi/core\<close>, with the fields the script reads.  The
  rejection handler of the request is typed \<^verbatim>\<open>(err: RequestError | LCUError)\<close>.
\<close>

record lcu_error =
  lcu_statusCode :: nat
  lcu_errorCode :: string
  lcu_message :: string
  lcu_implementationDetails :: "json option"

record request_error =
  rq_errorCode :: "string option"
  rq_message :: "string option"

datatype client_error = LCUError lcu_error | RequestError request_error

text \<open>The response of the client: \<^verbatim>\<open>res.status\<close> and \<^verbatim>\<open>res.data\<close>.\<close>

record response =
  status :: nat
  data :: json

text \<open>
  \<^verbatim>\<open>result\<close> of the request command: the object literal \<^verbatim>\<open>{ statusCode, body }\<close>, or
  the error the rejection handler returned.
\<close>

datatype result =
    Response nat json
  | LCUErr lcu_error
  | RequestErr request_error

text \<open>What \<^verbatim>\<open>getExtendedHelp\<close> and \<^verbatim>\<open>getTypeScript\<close> resolve to.\<close>

record extended_help =
  consoleSchema :: json
  extendedSchema :: json
  fullSchema :: json

record typescript_files =
  lcuEndpoints :: string
  lcuEvents :: string
  lcuTypes :: string

subsection \<open>Parsed arguments\<close>

text \<open>
  yargs hands the script the command name and that command's options; a string option
  that was not given is \<^verbatim>\<open>undefined\<close>, here \<open>None\<close>.  The two positionals of
  \<^verbatim>\<open>request\<close> are required by the command's declaration.
\<close>

record request_options =
  r_method :: string
  r_path :: string
  r_body :: "string option"
  r_query :: "string option"
  r_out :: "string option"

record listen_options =
  l_name :: "string option"
  l_path :: "string option"
  l_type :: "string list option"
  l_out :: "string option"

record schema_options =
  s_typescript :: "string option"
  s_tsnamespace :: "string option"
  s_swagger :: "string option"
  s_raw :: "string option"

datatype command =
    Request request_options
  | Listen listen_options
  | Schema schema_options
  | Credentials
  | Other string

subsection \<open>External calls and the outside world\<close>

datatype effect =
    ConsoleLog string
  | ClientConnect
  | ClientRequest request
  | AddLCUEventListener "string option" "string option" "string list option"
  | FsStat string
  | FsWriteFile string string
  | FsAppendFile string string
  | FsMkdir string
  | GetExtendedHelp bool
  | GetSwagger json
  | GetTypeScript json json "string option"
  | Delay nat
  | ProcessExit

type_synonym trace = "effect list"

text \<open>Exceptions that leave the script uncaught and end the process.\<close>

datatype exn =
    SyntaxError
  | TypeError
  | FsError
  | SchemaError
  | Rejected client_error

text \<open>
  The outside world of one run.  The first group are the pure library functions of the
  JavaScript runtime and of the error classes, which the repository does not contain;
  the second group fixes what each external call of the run answers.
  \<^item> \<open>JSON_parse s\<close> is \<open>None\<close> when \<^verbatim>\<open>JSON.parse\<close> throws.
  \<^item> \<open>JSON_stringify v n\<close> is \<^verbatim>\<open>JSON.stringify(v, null, n)\<close>, and
    \<^verbatim>\<open>JSON.stringify(v)\<close> for \<open>n = 0\<close>.
  \<^item> \<open>lcu_error_json\<close> and \<open>request_error_json\<close> give the JSON value an error object
    serialises as.
  \<^item> \<open>connect_attempts\<close> is the number of failed connection attempts before
    \<^verbatim>\<open>client.connect()\<close> resolves, \<open>None\<close> when the client is never found.
  \<^item> \<open>stat_reply p\<close> is \<open>None\<close> when \<^verbatim>\<open>fs.stat\<close> rejects, else what
    \<^verbatim>\<open>isDirectory()\<close> returns.
  \<^item> the remaining replies are \<open>False\<close> or \<open>None\<close> when the promise rejects.
\<close>

record world =
  JSON_parse :: "string \<Rightarrow> json option"
  JSON_stringify :: "json \<Rightarrow> nat \<Rightarrow> string"
  path_join :: "string \<Rightarrow> string \<Rightarrow> string"
  lcu_error_json :: "lcu_error \<Rightarrow> json"
  request_error_json :: "request_error \<Rightarrow> json"
  connect_attempts :: "nat option"
  port :: nat
  basicAuthToken :: string
  now :: nat
  stat_reply :: "string \<Rightarrow> bool option"
  request_reply :: "request \<Rightarrow> client_error + response"
  writeFile_ok :: "string \<Rightarrow> bool"
  appendFile_ok :: "string \<Rightarrow> bool"
  mkdir_ok :: "string \<Rightarrow> bool"
  extendedHelp_reply :: "bool \<Rightarrow> extended_help option"
  swagger_reply :: "json \<Rightarrow> json option"
  typeScript_reply :: "json \<Rightarrow> json \<Rightarrow> string option \<Rightarrow> typescript_files option"

subsection \<open>Sequencing\<close>

text \<open>
  A piece of the script takes the trace so far and returns its value or the exception
  it threw, with the extended trace; \<open>None\<close> means it never returns.
\<close>

type_synonym 'a io = "trace \<Rightarrow> ((exn + 'a) \<times> trace) option"

definition io_return :: "'a \<Rightarrow> 'a io" where
  "io_return a tr = Some (Inr a, tr)"

definition io_throw :: "exn \<Rightarrow> 'a io" where
  "io_throw e tr = Some (Inl e, tr)"

definition io_bind :: "'a io \<Rightarrow> ('a \<Rightarrow> 'b io) \<Rightarrow> 'b io" where
  "io_bind m f tr =
     (case m tr of
        None \<Rightarrow> None
      | Some (Inl e, tr') \<Rightarrow> Some (Inl e, tr')
      | Some (Inr a, tr') \<Rightarrow> f a tr')"

definition io_then :: "unit io \<Rightarrow> 'b io \<Rightarrow> 'b io" where
  "io_then m k = io_bind m (\<lambda>_. k)"

definition emit :: "effect \<Rightarrow> unit io" where
  "emit e tr = Some (Inr (), tr @ [e])"

primrec io_repeat :: "nat \<Rightarrow> unit io \<Rightarrow> unit io" where
  "io_repeat 0 m = io_return ()"
| "io_repeat (Suc n) m = io_then m (io_repeat n m)"

subsection \<open>Strings\<close>

text \<open>
  Strings are taken as ASCII: \<^verbatim>\<open>toUpperCase\<close> and \<^verbatim>\<open>toLowerCase\<close> change the 26
  letters and nothing else, \<^verbatim>\<open>substring(1)\<close> drops the first character.
\<close>

definition toUpperCase_char :: "char \<Rightarrow> char" where
  "toUpperCase_char c =
     (case map_of (zip ''abcdefghijklmnopqrstuvwxyz'' ''ABCDEFGHIJKLMNOPQRSTUVWXYZ'') c of
        Some u \<Rightarrow> u
      | None \<Rightarrow> c)"

definition toLowerCase_char :: "char \<Rightarrow> char" where
  "toLowerCase_char c =
     (case map_of (zip ''ABCDEFGHIJKLMNOPQRSTUVWXYZ'' ''abcdefghijklmnopqrstuvwxyz'') c of
        Some l \<Rightarrow> l
      | None \<Rightarrow> c)"

definition toUpperCase :: "string \<Rightarrow> string" where
  "toUpperCase s = map toUpperCase_char s"

definition toLowerCase :: "string \<Rightarrow> string" where
  "toLowerCase s = map toLowerCase_char s"

definition substring :: "nat \<Rightarrow> string \<Rightarrow> string" where
  "substring n s = drop n s"

text \<open>\<^verbatim>\<open>s.replaceAll(a, b)\<close> for one-character \<open>a\<close> and \<open>b\<close>.\<close>

definition replaceAll :: "char \<Rightarrow> char \<Rightarrow> string \<Rightarrow> string" where
  "replaceAll a b s = map (\<lambda>c. if c = a then b else c) s"

text \<open>A non-negative number inside a template literal: its decimal digits.\<close>

fun string_of_nat :: "nat \<Rightarrow> string" where
  "string_of_nat n =
     (if n < 10 then [''0123456789'' ! n]
      else string_of_nat (n div 10) @ [''0123456789'' ! (n mod 10)])"

text \<open>The condition \<^verbatim>\<open>if (v)\<close> on an optional JSON value.\<close>

fun truthy :: "json option \<Rightarrow> bool" where
  "truthy None = False"
| "truthy (Some JNull) = False"
| "truthy (Some (JBool b)) = b"
| "truthy (Some (JNum n)) = (n \<noteq> 0)"
| "truthy (Some (JStr s)) = (s \<noteq> [])"
| "truthy (Some (JArr vs)) = True"
| "truthy (Some (JObj kvs)) = True"

subsection \<open>Primitives\<close>

definition delay :: "nat \<Rightarrow> unit io" where
  "delay ms = emit (Delay ms)"

definition log :: "string \<Rightarrow> unit io" where
  "log text = emit (ConsoleLog (''[hasagi] '' @ text))"

definition console_log :: "string \<Rightarrow> unit io" where
  "console_log text = emit (ConsoleLog text)"

text \<open>
  \<^verbatim>\<open>client.on("connection-attempt-failed", handler); await client.connect()\<close>: the
  handler runs once per failed attempt, then the promise resolves, if it ever does.
\<close>

definition client_connect :: "world \<Rightarrow> unit io \<Rightarrow> unit io" where
  "client_connect w handler =
     io_then (emit ClientConnect)
       (case connect_attempts w of
          None \<Rightarrow> (\<lambda>tr. None)
        | Some n \<Rightarrow> io_repeat n handler)"

text \<open>\<^verbatim>\<open>fs.stat(p).then(stat => stat.isDirectory(), () => false)\<close>\<close>

definition stat_isDirectory :: "world \<Rightarrow> string \<Rightarrow> bool io" where
  "stat_isDirectory w p =
     io_then (emit (FsStat p))
       (io_return (case stat_reply w p of Some d \<Rightarrow> d | None \<Rightarrow> False))"

definition fs_writeFile :: "world \<Rightarrow> string \<Rightarrow> string \<Rightarrow> unit io" where
  "fs_writeFile w p d =
     io_then (emit (FsWriteFile p d))
       (if writeFile_ok w p then io_return () else io_throw FsError)"

definition fs_appendFile :: "world \<Rightarrow> string \<Rightarrow> string \<Rightarrow> unit io" where
  "fs_appendFile w p d =
     io_then (emit (FsAppendFile p d))
       (if appendFile_ok w p then io_return () else io_throw FsError)"

definition fs_mkdir :: "world \<Rightarrow> string \<Rightarrow> unit io" where
  "fs_mkdir w p =
     io_then (emit (FsMkdir p))
       (if mkdir_ok w p then io_return () else io_throw FsError)"

definition getExtendedHelp :: "world \<Rightarrow> bool \<Rightarrow> extended_help io" where
  "getExtendedHelp w b =
     io_then (emit (GetExtendedHelp b))
       (case extendedHelp_reply w b of
          None \<Rightarrow> io_throw SchemaError
        | Some h \<Rightarrow> io_return h)"

definition getSwagger :: "world \<Rightarrow> json \<Rightarrow> json io" where
  "getSwagger w ext =
     io_then (emit (GetSwagger ext))
       (case swagger_reply w ext of
          None \<Rightarrow> io_throw SchemaError
        | Some s \<Rightarrow> io_return s)"

definition getTypeScript :: "world \<Rightarrow> json \<Rightarrow> json \<Rightarrow> string option \<Rightarrow> typescript_files io" where
  "getTypeScript w sw ext ns =
     io_then (emit (GetTypeScript sw ext ns))
       (case typeScript_reply w sw ext ns of
          None \<Rightarrow> io_throw SchemaError
        | Some t \<Rightarrow> io_return t)"

text \<open>\<^verbatim>\<open>JSON.parse\<close> of an option that is a string, \<^verbatim>\<open>undefined\<close> otherwise.\<close>

definition parse_option :: "world \<Rightarrow> string option \<Rightarrow> json option io" where
  "parse_option w s =
     (case s of
        None \<Rightarrow> io_return None
      | Some t \<Rightarrow>
          (case JSON_parse w t of
             None \<Rightarrow> io_throw SyntaxError
           | Some v \<Rightarrow> io_return (Some v)))"

text \<open>
  \<^verbatim>\<open>options.out === undefined ? undefined : options.out !== "" ? options.out : "./"\<close>
\<close>

definition resolve_out :: "string option \<Rightarrow> string option" where
  "resolve_out out =
     (case out of
        None \<Rightarrow> None
      | Some s \<Rightarrow> if s \<noteq> [] then Some s else Some ''./'')"

text \<open>
  \<^verbatim>\<open>out !== undefined ? await fs.stat(out)... : false\<close>
\<close>

definition isDirectory_of :: "world \<Rightarrow> string option \<Rightarrow> bool io" where
  "isDirectory_of w out =
     (case out of
        Some p \<Rightarrow> stat_isDirectory w p
      | None \<Rightarrow> io_return False)"

text \<open>The loop \<^verbatim>\<open>while (true) { await delay(100) }\<close>.\<close>

partial_function (option) idle_loop :: "trace \<Rightarrow> ((exn + unit) \<times> trace) option" where
  "idle_loop tr =
     (case delay 100 tr of
        None \<Rightarrow> None
      | Some (Inl e, tr') \<Rightarrow> Some (Inl e, tr')
      | Some (Inr u, tr') \<Rightarrow> idle_loop tr')"

subsection \<open>The request command\<close>

text \<open>A value between single quotes, as the log messages print it.\<close>

definition quoted :: "string \<Rightarrow> string" where
  "quoted s = [CHR 0x27] @ s @ [CHR 0x27]"

text \<open>
  \<^verbatim>\<open>client.request(req)\<close>: the promise, once settled.  \<open>Inl\<close> is a rejection.
\<close>

definition client_request :: "world \<Rightarrow> request \<Rightarrow> (client_error + response) io" where
  "client_request w req = io_then (emit (ClientRequest req)) (io_return (request_reply w req))"

text \<open>\<^verbatim>\<open>await p\<close>: the value of a fulfilled promise; a rejection is thrown.\<close>

definition await :: "client_error + 'a \<Rightarrow> 'a io" where
  "await p = (case p of Inl err \<Rightarrow> io_throw (Rejected err) | Inr v \<Rightarrow> io_return v)"

text \<open>
  \<^verbatim>\<open>.then(res => ({ statusCode: res.status, body: res.data }), err => err)\<close>: both
  handlers return a value, so the new promise is always fulfilled.
\<close>

definition then_result :: "client_error + response \<Rightarrow> result" where
  "then_result p =
     (case p of
        Inr res \<Rightarrow> Response (status res) (data res)
      | Inl (LCUError err) \<Rightarrow> LCUErr err
      | Inl (RequestError err) \<Rightarrow> RequestErr err)"

text \<open>\<^verbatim>\<open>JSON.stringify(result, null, indent)\<close>\<close>

definition stringify_result :: "world \<Rightarrow> result \<Rightarrow> nat \<Rightarrow> string" where
  "stringify_result w result indent =
     JSON_stringify w
       (case result of
          Response statusCode body \<Rightarrow> JObj [(''statusCode'', JNum (int statusCode)), (''body'', body)]
        | LCUErr err \<Rightarrow> lcu_error_json w err
        | RequestErr err \<Rightarrow> request_error_json w err)
       indent"

text \<open>
  The file name inside a directory target; \<open>method\<close> is the upper-cased method:
  \<^verbatim>\<open>`${method}-${path.substring(1).replaceAll("/", "_")}-${Date.now()}.json`\<close>
\<close>

definition request_filename :: "string \<Rightarrow> string \<Rightarrow> nat \<Rightarrow> string" where
  "request_filename method path t =
     method @ ''-'' @ replaceAll CHR ''/'' CHR ''_'' (substring 1 path) @ ''-''
       @ string_of_nat t @ ''.json''"

text \<open>
  \<^verbatim>\<open>if (out) { await fs.writeFile(isDirectory ? _path.join(out, name) : out, text) }\<close>
  The condition holds for a string that is not empty.
\<close>

definition write_out :: "world \<Rightarrow> string option \<Rightarrow> bool \<Rightarrow> string \<Rightarrow> string \<Rightarrow> unit io" where
  "write_out w out isDirectory name text =
     (case out of
        None \<Rightarrow> io_return ()
      | Some p \<Rightarrow>
          if p \<noteq> [] then fs_writeFile w (if isDirectory then path_join w p name else p) text
          else io_return ())"

text \<open>The messages after the request, by the class of \<^verbatim>\<open>result\<close>.\<close>

definition report :: "world \<Rightarrow> result \<Rightarrow> unit io" where
  "report w result =
     (case result of
        LCUErr err \<Rightarrow>
          io_then (log (''Received response with non-success status code ''
                          @ quoted (string_of_nat (lcu_statusCode err)) @ ''.''))
         (io_then (log (''Error code: '' @ quoted (lcu_errorCode err) @ ''.''))
         (io_then (log (''Error message: '' @ quoted (lcu_message err)))
           (if truthy (lcu_implementationDetails err)
            then (case lcu_implementationDetails err of
                    Some d \<Rightarrow> log (''Additional details: '' @ JSON_stringify w d 0)
                  | None \<Rightarrow> io_return ())
            else io_return ())))
      | RequestErr err \<Rightarrow>
          log ((case rq_errorCode err of Some c \<Rightarrow> c | None \<Rightarrow> ''RequestError'') @ '': ''
                 @ (case rq_message err of Some m \<Rightarrow> m | None \<Rightarrow> ''An error occurred''))
      | Response statusCode body \<Rightarrow>
          io_then (log (''Received response with status code ''
                          @ quoted (string_of_nat statusCode) @ ''.''))
            (log (''Response: '' @ JSON_stringify w body 4)))"

definition sending_message :: "world \<Rightarrow> string \<Rightarrow> string \<Rightarrow> string" where
  "sending_message w method path =
     ''Sending '' @ quoted method @ '' request to ''
       @ quoted (''https://127.0.0.1:'' @ string_of_nat (port w) @ path) @ ''...''"

text \<open>The request of the current script, \<^verbatim>\<open>src/bin/index.ts\<close> lines 59 to 64.\<close>

definition request_of :: "string \<Rightarrow> string \<Rightarrow> json option \<Rightarrow> json option \<Rightarrow> request" where
  "request_of method path body query =
     \<lparr>req_method = method, req_url = path, req_data = body, req_params = query,
      returnAxiosResponse = True, returnFullAxiosResponse = False\<rparr>"

text \<open>\<^verbatim>\<open>src/bin/index.ts\<close>, lines 44 to 85.\<close>

definition request_cmd :: "world \<Rightarrow> request_options \<Rightarrow> unit io" where
  "request_cmd w options =
     io_then (client_connect w (log ''Waiting for League of Legends client...''))
       (let method = toUpperCase (r_method options);
            path = r_path options in
        io_bind (parse_option w (r_body options)) (\<lambda>body.
        io_bind (parse_option w (r_query options)) (\<lambda>query.
        let out = resolve_out (r_out options) in
        io_bind (isDirectory_of w out) (\<lambda>isDirectory.
        io_then (log (sending_message w method path))
          (io_bind (io_bind (client_request w (request_of method path body query))
                      (\<lambda>p. io_return (then_result p))) (\<lambda>result.
           io_then (write_out w out isDirectory (request_filename method path (now w))
                      (stringify_result w result 4))
             (report w result)))))))"

subsection \<open>The request command of the older script\<close>

text \<open>The request of \<^verbatim>\<open>src/unnamed/part_000\<close>, line 53.\<close>

definition legacy_request_of :: "string \<Rightarrow> string \<Rightarrow> request" where
  "legacy_request_of method path =
     \<lparr>req_method = method, req_url = path, req_data = None, req_params = None,
      returnAxiosResponse = False, returnFullAxiosResponse = True\<rparr>"

text \<open>\<^verbatim>\<open>src/unnamed/part_000\<close>, lines 40 to 63.\<close>

definition legacy_request_cmd :: "world \<Rightarrow> request_options \<Rightarrow> unit io" where
  "legacy_request_cmd w options =
     io_then (client_connect w (console_log ''Waiting for League of Legends client...''))
       (let method = toUpperCase (r_method options);
            path = toLowerCase (r_path options);
            out = resolve_out (r_out options) in
        io_bind (isDirectory_of w out) (\<lambda>isDirectory.
        io_then (console_log ''Waiting for League client...'')
       (io_then (console_log (sending_message w method path))
          (io_bind (io_bind (client_request w (legacy_request_of method path)) await) (\<lambda>result.
           io_then (write_out w out isDirectory (request_filename method path (now w))
                      (JSON_stringify w
                         (JObj [(''statusCode'', JNum (int (status result))),
                                (''data'', data result)]) 4))
          (io_then (console_log (''Status code: '' @ string_of_nat (status result)))
             (console_log (''Response content: '' @ JSON_stringify w (data result) 4))))))))"

subsection \<open>The listen command\<close>

text \<open>
  \<^verbatim>\<open>if (out) { await fs.appendFile(isDirectory ? _path.join(out, "lcu-websocket-events.txt") : out,
  JSON.stringify(event, null, 4) + "\n") }\<close>
\<close>

definition append_event :: "world \<Rightarrow> string option \<Rightarrow> bool \<Rightarrow> json \<Rightarrow> unit io" where
  "append_event w out isDirectory event =
     (case out of
        None \<Rightarrow> io_return ()
      | Some p \<Rightarrow>
          if p \<noteq> []
          then fs_appendFile w
                 (if isDirectory then path_join w p ''lcu-websocket-events.txt'' else p)
                 (JSON_stringify w event 4 @ [CHR 0x0A])
          else io_return ())"

text \<open>
  The callback given to \<^verbatim>\<open>addLCUEventListener\<close>; \<open>out\<close> and \<open>isDirectory\<close> are the two
  variables of the script it closes over.
\<close>

definition listen_callback :: "world \<Rightarrow> string option \<Rightarrow> bool \<Rightarrow> json \<Rightarrow> unit io" where
  "listen_callback w out isDirectory event =
     io_then (append_event w out isDirectory event)
       (log (''Received event: '' @ JSON_stringify w event 4))"

definition legacy_listen_callback :: "world \<Rightarrow> string option \<Rightarrow> bool \<Rightarrow> json \<Rightarrow> unit io" where
  "legacy_listen_callback w out isDirectory event =
     io_then (append_event w out isDirectory event)
       (console_log (''Received event: '' @ JSON_stringify w event 4))"

text \<open>
  The script up to and including the registration, \<^verbatim>\<open>src/bin/index.ts\<close> lines 87 to
  109; it returns the \<open>out\<close> and \<open>isDirectory\<close> the registered callback closes over.
\<close>

definition listen_setup :: "world \<Rightarrow> unit io \<Rightarrow> listen_options \<Rightarrow> (string option \<times> bool) io" where
  "listen_setup w handler options =
     io_then (client_connect w handler)
       (let name = l_name options;
            path = l_path options;
            types = l_type options;
            out = resolve_out (l_out options) in
        io_bind (isDirectory_of w out) (\<lambda>isDirectory.
        io_then (emit (AddLCUEventListener name path types))
          (io_return (out, isDirectory))))"

text \<open>\<^verbatim>\<open>src/bin/index.ts\<close>, lines 86 to 111.\<close>

definition listen_cmd :: "world \<Rightarrow> listen_options \<Rightarrow> unit io" where
  "listen_cmd w options =
     io_bind (listen_setup w (log ''Waiting for League of Legends client...'') options)
       (\<lambda>_. idle_loop)"

text \<open>\<^verbatim>\<open>src/unnamed/part_000\<close>, lines 64 to 89.\<close>

definition legacy_listen_cmd :: "world \<Rightarrow> listen_options \<Rightarrow> unit io" where
  "legacy_listen_cmd w options =
     io_bind (listen_setup w (console_log ''Waiting for League of Legends client...'') options)
       (\<lambda>_. idle_loop)"

text \<open>
  The client calls the callback once for every event it delivers, in the order of
  delivery; whether a callback throws does not stop later deliveries.
\<close>

primrec deliver :: "(json \<Rightarrow> unit io) \<Rightarrow> json list \<Rightarrow> unit io" where
  "deliver callback [] = io_return ()"
| "deliver callback (event # events) =
     (\<lambda>tr. case callback event tr of
              None \<Rightarrow> None
            | Some (r, tr') \<Rightarrow> deliver callback events tr')"

text \<open>
  The listen command never returns, so what it does to the outside is read off its
  finite stretches: the script up to the registration, followed by the deliveries of
  the events \<open>events\<close> to the registered callback.
\<close>

definition listen_events :: "world \<Rightarrow> listen_options \<Rightarrow> json list \<Rightarrow> unit io" where
  "listen_events w options events =
     io_bind (listen_setup w (log ''Waiting for League of Legends client...'') options)
       (\<lambda>(out, isDirectory). deliver (listen_callback w out isDirectory) events)"

definition legacy_listen_events :: "world \<Rightarrow> listen_options \<Rightarrow> json list \<Rightarrow> unit io" where
  "legacy_listen_events w options events =
     io_bind (listen_setup w (console_log ''Waiting for League of Legends client...'') options)
       (\<lambda>(out, isDirectory). deliver (legacy_listen_callback w out isDirectory) events)"

subsection \<open>The schema command\<close>

text \<open>\<^verbatim>\<open>dir !== "" ? dir : "./"\<close>\<close>

definition schema_out :: "string \<Rightarrow> string" where
  "schema_out dir = (if dir \<noteq> [] then dir else ''./'')"

definition write_raw :: "world \<Rightarrow> string option \<Rightarrow> extended_help \<Rightarrow> unit io" where
  "write_raw w raw help =
     (case raw of
        None \<Rightarrow> io_return ()
      | Some r \<Rightarrow>
          let out = schema_out r in
          io_then (fs_mkdir w out)
         (io_then (fs_writeFile w (path_join w out ''console-schema.json'')
                     (JSON_stringify w (consoleSchema help) 4))
         (io_then (fs_writeFile w (path_join w out ''full-schema.json'')
                     (JSON_stringify w (fullSchema help) 4))
            (fs_writeFile w (path_join w out ''extended-schema.json'')
               (JSON_stringify w (extendedSchema help) 4)))))"

text \<open>
  \<^verbatim>\<open>swaggerObj!\<close> asserts a value that is there whenever the branch runs; handing
  \<^verbatim>\<open>undefined\<close> on would be a type error.
\<close>

definition write_swagger :: "world \<Rightarrow> string option \<Rightarrow> json option \<Rightarrow> unit io" where
  "write_swagger w swagger swaggerObj =
     (case swagger of
        None \<Rightarrow> io_return ()
      | Some s \<Rightarrow>
          let out = schema_out s in
          io_then (fs_mkdir w out)
            (case swaggerObj of
               None \<Rightarrow> io_throw TypeError
             | Some obj \<Rightarrow>
                 fs_writeFile w (path_join w out ''swagger.json'') (JSON_stringify w obj 4)))"

definition write_typescript ::
  "world \<Rightarrow> string option \<Rightarrow> string option \<Rightarrow> json option \<Rightarrow> json \<Rightarrow> unit io" where
  "write_typescript w typescript tsnamespace swaggerObj ext =
     (case typescript of
        None \<Rightarrow> io_return ()
      | Some t \<Rightarrow>
          (case swaggerObj of
             None \<Rightarrow> io_throw TypeError
           | Some obj \<Rightarrow>
               io_bind (getTypeScript w obj ext tsnamespace) (\<lambda>ts.
               let out = schema_out t in
               io_then (fs_mkdir w out)
              (io_then (fs_writeFile w (path_join w out ''lcu-types.d.ts'') (lcuTypes ts))
              (io_then (fs_writeFile w (path_join w out ''lcu-endpoints.d.ts'') (lcuEndpoints ts))
                 (fs_writeFile w (path_join w out ''lcu-events.d.ts'') (lcuEvents ts)))))))"

text \<open>\<^verbatim>\<open>src/bin/index.ts\<close>, lines 112 to 144.\<close>

definition schema_cmd :: "world \<Rightarrow> schema_options \<Rightarrow> unit io" where
  "schema_cmd w options =
     (let raw = s_raw options;
          swagger = s_swagger options;
          typescript = s_typescript options;
          tsnamespace = s_tsnamespace options in
      if raw \<noteq> None \<or> swagger \<noteq> None \<or> typescript \<noteq> None then
        io_bind (getExtendedHelp w True) (\<lambda>help.
        io_then (write_raw w raw help)
       (io_bind (if swagger \<noteq> None \<or> typescript \<noteq> None
                 then io_bind (getSwagger w (extendedSchema help)) (\<lambda>obj. io_return (Some obj))
                 else io_return None) (\<lambda>swaggerObj.
        io_then (write_swagger w swagger swaggerObj)
          (write_typescript w typescript tsnamespace swaggerObj (extendedSchema help)))))
      else io_return ())"

subsection \<open>The credentials command and the script\<close>

definition credentials_cmd :: "world \<Rightarrow> unit io" where
  "credentials_cmd w =
     io_then (client_connect w (log ''Waiting for League of Legends client...''))
       (log (JSON_stringify w
          (JObj [(''url'', JStr (''https://127.0.0.1:'' @ string_of_nat (port w))),
                 (''Authorization'', JStr (''Basic '' @ basicAuthToken w))]) 4))"

definition process_exit :: "unit io" where
  "process_exit = emit ProcessExit"

text \<open>
  \<^verbatim>\<open>src/bin/index.ts\<close>: the chain of \<^verbatim>\<open>if (cmd === ...)\<close>, then \<^verbatim>\<open>process.exit()\<close>.
  A result \<open>Some (Inr (), tr)\<close> is a run that reached \<^verbatim>\<open>process.exit()\<close>,
  \<open>Some (Inl e, tr)\<close> one that ended by the uncaught exception \<open>e\<close>, and \<open>None\<close> one
  that never ends by itself.
\<close>

definition main :: "world \<Rightarrow> command \<Rightarrow> unit io" where
  "main w cmd =
     io_then
       (case cmd of
          Request options \<Rightarrow> request_cmd w options
        | Listen options \<Rightarrow> listen_cmd w options
        | Schema options \<Rightarrow> schema_cmd w options
        | Credentials \<Rightarrow> credentials_cmd w
        | Other c \<Rightarrow> io_return ())
       process_exit"

text \<open>\<^verbatim>\<open>src/unnamed/part_000\<close>: the same chain without the credentials command.\<close>

definition legacy_main :: "world \<Rightarrow> command \<Rightarrow> unit io" where
  "legacy_main w cmd =
     io_then
       (case cmd of
          Request options \<Rightarrow> legacy_request_cmd w options
        | Listen options \<Rightarrow> legacy_listen_cmd w options
        | Schema options \<Rightarrow> schema_cmd w options
        | Credentials \<Rightarrow> io_return ()
        | Other c \<Rightarrow> io_return ())
       process_exit"

subsection \<open>Reading a trace\<close>

text \<open>The files written, the files appended to, the paths examined and the requests sent, in order.\<close>

fun written_by :: "effect \<Rightarrow> (string \<times> string) list" where
  "written_by (FsWriteFile p d) = [(p, d)]"
| "written_by e = []"

fun appended_by :: "effect \<Rightarrow> (string \<times> string) list" where
  "appended_by (FsAppendFile p d) = [(p, d)]"
| "appended_by e = []"

fun stat_by :: "effect \<Rightarrow> string list" where
  "stat_by (FsStat p) = [p]"
| "stat_by e = []"

fun request_by :: "effect \<Rightarrow> request list" where
  "request_by (ClientRequest req) = [req]"
| "request_by e = []"

definition written :: "trace \<Rightarrow> (string \<times> string) list" where
  "written tr = concat (map written_by tr)"

definition appended :: "trace \<Rightarrow> (string \<times> string) list" where
  "appended tr = concat (map appended_by tr)"

definition stat_paths :: "trace \<Rightarrow> string list" where
  "stat_paths tr = concat (map stat_by tr)"

definition requests :: "trace \<Rightarrow> request list" where
  "requests tr = concat (map request_by tr)"

text \<open>The schema fetches, the Swagger derivations and the directories created, in order.\<close>

fun fetch_by :: "effect \<Rightarrow> bool list" where
  "fetch_by (GetExtendedHelp b) = [b]"
| "fetch_by e = []"

fun swagger_by :: "effect \<Rightarrow> json list" where
  "swagger_by (GetSwagger ext) = [ext]"
| "swagger_by e = []"

fun mkdir_by :: "effect \<Rightarrow> string list" where
  "mkdir_by (FsMkdir p) = [p]"
| "mkdir_by e = []"

definition fetched :: "trace \<Rightarrow> bool list" where
  "fetched tr = concat (map fetch_by tr)"

definition derived :: "trace \<Rightarrow> json list" where
  "derived tr = concat (map swagger_by tr)"

definition created :: "trace \<Rightarrow> string list" where
  "created tr = concat (map mkdir_by tr)"


subsection \<open>The file name as the specification words it\<close>

text \<open>
  \<^verbatim>\<open>{METHOD}-{path with '/' replaced by '_'}-{timestamp}.json\<close>, the method upper-cased,
  every slash of the path replaced.
\<close>

definition spec_request_filename :: "string \<Rightarrow> string \<Rightarrow> nat \<Rightarrow> string" where
  "spec_request_filename method path t =
     toUpperCase method @ ''-'' @ replaceAll CHR ''/'' CHR ''_'' path @ ''-''
       @ string_of_nat t @ ''.json''"

subsection \<open>A concrete world\<close>

text \<open>
  A world to run the script in: a small serialiser and parser, paths joined with a
  slash, a client found at the second attempt that answers every request with status
  200, one existing directory \<^verbatim>\<open>dir\<close>, one existing file \<^verbatim>\<open>file\<close>, and a file system
  that accepts every write.
\<close>

fun example_stringify :: "json \<Rightarrow> nat \<Rightarrow> string" where
  "example_stringify JNull n = ''null''"
| "example_stringify (JBool b) n = (if b then ''true'' else ''false'')"
| "example_stringify (JNum i) n = (if i < 0 then ''-'' else []) @ string_of_nat (nat \<bar>i\<bar>)"
| "example_stringify (JStr s) n = ''<'' @ s @ ''>''"
| "example_stringify (JArr vs) n = ''[..]''"
| "example_stringify (JObj kvs) n = ''{'' @ concat (map (\<lambda>kv. fst kv @ '';'') kvs) @ ''}''"

definition example_parse :: "string \<Rightarrow> json option" where
  "example_parse s =
     (if s = ''null'' then Some JNull
      else if s = ''true'' then Some (JBool True)
      else if s = ''{}'' then Some (JObj [])
      else None)"

definition example_world :: world where
  "example_world =
     \<lparr>JSON_parse = example_parse,
      JSON_stringify = example_stringify,
      path_join = (\<lambda>d f. d @ ''/'' @ f),
      lcu_error_json = (\<lambda>e. JObj [(''statusCode'', JNum (int (lcu_statusCode e)))]),
      request_error_json = (\<lambda>e. JObj []),
      connect_attempts = Some 1,
      port = 2999,
      basicAuthToken = ''dG9rZW4='',
      now = 5,
      stat_reply = (\<lambda>p. if p = ''dir'' then Some True else if p = ''file'' then Some False else None),
      request_reply = (\<lambda>req. Inr \<lparr>status = 200, data = JBool True\<rparr>),
      writeFile_ok = (\<lambda>p. True),
      appendFile_ok = (\<lambda>p. True),
      mkdir_ok = (\<lambda>p. True),
      extendedHelp_reply =
        (\<lambda>b. Some \<lparr>consoleSchema = JStr ''c'', extendedSchema = JStr ''e'', fullSchema = JStr ''f''\<rparr>),
      swagger_reply = (\<lambda>ext. Some (JObj [(''swagger'', ext)])),
      typeScript_reply =
        (\<lambda>sw ext ns. Some \<lparr>lcuEndpoints = ''endpoints'', lcuEvents = ''events'', lcuTypes = ''types''\<rparr>)\<rparr>"


section \<open>Properties\<close>

subsection \<open>The idle loop\<close>



declare string_of_nat.simps [simp del]

subsection \<open>Laws of sequencing\<close>

lemma io_bind_return [simp]: "io_bind (io_return a) f = f a"
  by (rule ext) (simp add: io_bind_def io_return_def)

lemma io_bind_throw [simp]: "io_bind (io_throw e) f = io_throw e"
  by (rule ext) (simp add: io_bind_def io_throw_def)

lemma io_bind_assoc [simp]: "io_bind (io_bind m f) g = io_bind m (\<lambda>a. io_bind (f a) g)"
  by (rule ext) (simp add: io_bind_def split: option.splits sum.splits prod.splits)

lemma io_bind_emit [simp]: "io_bind (emit e) f tr = f () (tr @ [e])"
  by (simp add: io_bind_def emit_def)

lemma io_return_apply: "io_return a tr = Some (Inr a, tr)"
  by (simp add: io_return_def)

lemma io_throw_apply: "io_throw e tr = Some (Inl e, tr)"
  by (simp add: io_throw_def)

lemma emit_apply: "emit e tr = Some (Inr (), tr @ [e])"
  by (simp add: emit_def)

lemmas io_apply = io_return_apply io_throw_apply emit_apply

lemma io_repeat_emit: "io_bind (io_repeat n (emit e)) f tr = f () (tr @ replicate n e)"
  by (induction n arbitrary: tr) (simp_all add: io_then_def replicate_app_Cons_same)

lemma client_connect_emit:
  "connect_attempts w = Some n \<Longrightarrow>
   io_bind (client_connect w (emit e)) f tr = f () (tr @ ClientConnect # replicate n e)"
  by (simp add: client_connect_def io_then_def io_repeat_emit)


lemma isDirectory_of_bind:
  "io_bind (isDirectory_of w out) f tr =
     (case out of
        None \<Rightarrow> f False tr
      | Some p \<Rightarrow> f (stat_reply w p = Some True) (tr @ [FsStat p]))"
  by (cases out; cases "stat_reply w (the out)")
     (simp_all add: isDirectory_of_def stat_isDirectory_def io_then_def)

lemma parse_option_None [simp]: "parse_option w None = io_return None"
  by (simp add: parse_option_def)




lemma resolve_out_not_empty: "resolve_out out \<noteq> Some []"
  by (simp add: resolve_out_def split: option.splits)

subsection \<open>Reading a trace\<close>

lemma written_simps [simp]:
  "written [] = []"
  "written (e # tr) = written_by e @ written tr"
  "written (tr @ tr') = written tr @ written tr'"
  "written (map ConsoleLog ls) = []"
  "written (replicate n (ConsoleLog l)) = []"
  by (induction ls; induction n; simp add: written_def)+

lemma appended_simps [simp]:
  "appended [] = []"
  "appended (e # tr) = appended_by e @ appended tr"
  "appended (tr @ tr') = appended tr @ appended tr'"
  "appended (map ConsoleLog ls) = []"
  "appended (replicate n (ConsoleLog l)) = []"
  by (induction ls; induction n; simp add: appended_def)+

lemma stat_paths_simps [simp]:
  "stat_paths [] = []"
  "stat_paths (e # tr) = stat_by e @ stat_paths tr"
  "stat_paths (tr @ tr') = stat_paths tr @ stat_paths tr'"
  "stat_paths (map ConsoleLog ls) = []"
  "stat_paths (replicate n (ConsoleLog l)) = []"
  by (induction ls; induction n; simp add: stat_paths_def)+

lemma requests_simps [simp]:
  "requests [] = []"
  "requests (e # tr) = request_by e @ requests tr"
  "requests (tr @ tr') = requests tr @ requests tr'"
  "requests (map ConsoleLog ls) = []"
  "requests (replicate n (ConsoleLog l)) = []"
  by (induction ls; induction n; simp add: requests_def)+

subsection \<open>The request command, step by step\<close>

lemma report_logs: "\<exists>ls. report w r tr = Some (Inr (), tr @ map ConsoleLog ls)"
proof (cases r)
  case (Response s b)
  show ?thesis
    by (rule exI [of _ "[_, _]"]) (simp add: Response report_def io_then_def log_def io_apply)
next
  case (LCUErr e)
  show ?thesis
  proof (cases "lcu_implementationDetails e")
    case None
    then show ?thesis
      by (intro exI [of _ "[_, _, _]"]) (simp add: LCUErr report_def io_then_def log_def io_apply)
  next
    case (Some d)
    show ?thesis
    proof (cases "truthy (Some d)")
      case True
      with Some show ?thesis
        by (intro exI [of _ "[_, _, _, _]"])
           (simp add: LCUErr report_def io_then_def log_def io_apply)
    next
      case False
      with Some show ?thesis
        by (intro exI [of _ "[_, _, _]"])
           (simp add: LCUErr report_def io_then_def log_def io_apply)
    qed
  qed
next
  case (RequestErr e)
  show ?thesis
    by (rule exI [of _ "[_]"]) (simp add: RequestErr report_def log_def io_apply)
qed

text \<open>The write of a request command: at most one file, then only messages.\<close>

lemma write_out_then:
  assumes k: "\<And>tr. \<exists>ls. k tr = Some (Inr (), tr @ map ConsoleLog ls)"
  shows "\<exists>r ls. (r = Inr () \<or> r = Inl FsError) \<and>
     io_bind (write_out w out d name text) (\<lambda>_. k) tr =
     Some (r, tr @
       (case out of
          None \<Rightarrow> []
        | Some p \<Rightarrow>
            if p = [] then [] else [FsWriteFile (if d then path_join w p name else p) text])
       @ map ConsoleLog ls)"
proof -
  consider (none) "out = None \<or> out = Some []"
    | (ok) p where "out = Some p" "p \<noteq> []" "writeFile_ok w (if d then path_join w p name else p)"
    | (fails) p where "out = Some p" "p \<noteq> []" "\<not> writeFile_ok w (if d then path_join w p name else p)"
    by (cases out) auto
  then show ?thesis
  proof cases
    case none
    from k [of tr] obtain ls where "k tr = Some (Inr (), tr @ map ConsoleLog ls)" ..
    with none show ?thesis
      by (intro exI [of _ "Inr ()"] exI [of _ ls]) (auto simp: write_out_def)
  next
    case ok
    let ?e = "FsWriteFile (if d then path_join w p name else p) text"
    from k [of "tr @ [?e]"] obtain ls
      where "k (tr @ [?e]) = Some (Inr (), (tr @ [?e]) @ map ConsoleLog ls)" ..
    with ok show ?thesis
      by (intro exI [of _ "Inr ()"] exI [of _ ls])
         (simp add: write_out_def fs_writeFile_def io_then_def)
  next
    case fails
    then show ?thesis
      by (intro exI [of _ "Inl FsError"] exI [of _ "[]"])
         (simp add: write_out_def fs_writeFile_def io_then_def io_apply)
  qed
qed

text \<open>
  The whole run of the request command once the client is connected and both options
  parse: the trace is fixed up to the messages that follow the write.
\<close>

lemma request_cmd_trace:
  assumes conn: "connect_attempts w = Some n"
    and body: "parse_option w (r_body opts) = io_return body"
    and query: "parse_option w (r_query opts) = io_return query"
  shows "\<exists>r ls. (r = Inr () \<or> r = Inl FsError) \<and>
    request_cmd w opts tr =
      Some (r, tr @ ClientConnect
        # replicate n (ConsoleLog ''[hasagi] Waiting for League of Legends client...'')
        @ map FsStat (case resolve_out (r_out opts) of None \<Rightarrow> [] | Some p \<Rightarrow> [p])
        @ [ConsoleLog (''[hasagi] '' @ sending_message w (toUpperCase (r_method opts)) (r_path opts)),
           ClientRequest (request_of (toUpperCase (r_method opts)) (r_path opts) body query)]
        @ (case resolve_out (r_out opts) of
             None \<Rightarrow> []
           | Some p \<Rightarrow>
               [FsWriteFile
                  (if stat_reply w p = Some True
                   then path_join w p
                          (request_filename (toUpperCase (r_method opts)) (r_path opts) (now w))
                   else p)
                  (stringify_result w
                     (then_result (request_reply w
                        (request_of (toUpperCase (r_method opts)) (r_path opts) body query))) 4)])
        @ map ConsoleLog ls)"
proof -
  let ?m = "toUpperCase (r_method opts)"
  let ?req = "request_of ?m (r_path opts) body query"
  let ?res = "then_result (request_reply w ?req)"
  let ?out = "resolve_out (r_out opts)"
  let ?pre = "\<lambda>d. tr @ ClientConnect
        # replicate n (ConsoleLog ''[hasagi] Waiting for League of Legends client...'')
        @ map FsStat (case ?out of None \<Rightarrow> [] | Some p \<Rightarrow> [p])
        @ [ConsoleLog (''[hasagi] '' @ sending_message w ?m (r_path opts)), ClientRequest ?req]"
  let ?d = "case ?out of None \<Rightarrow> False | Some p \<Rightarrow> stat_reply w p = Some True"
  have run: "request_cmd w opts tr =
     io_bind (write_out w ?out ?d (request_filename ?m (r_path opts) (now w))
                (stringify_result w ?res 4)) (\<lambda>_. report w ?res) (?pre ())"
    by (cases ?out)
       (simp_all add: request_cmd_def Let_def io_then_def log_def client_connect_emit [OF conn]
          body query isDirectory_of_bind client_request_def)
  have k: "\<exists>ls. report w ?res t = Some (Inr (), t @ map ConsoleLog ls)" for t
    by (rule report_logs)
  from write_out_then [of "report w ?res" w ?out ?d "request_filename ?m (r_path opts) (now w)"
      "stringify_result w ?res 4" "?pre ()", OF k]
  obtain r ls where r: "io_bind (write_out w ?out ?d (request_filename ?m (r_path opts) (now w))
                (stringify_result w ?res 4)) (\<lambda>_. report w ?res) (?pre ()) =
     Some (r, ?pre () @
       (case ?out of
          None \<Rightarrow> []
        | Some p \<Rightarrow>
            if p = [] then []
            else [FsWriteFile (if ?d then path_join w p (request_filename ?m (r_path opts) (now w)) else p)
                    (stringify_result w ?res 4)])
       @ map ConsoleLog ls)"
    and rr: "r = Inr () \<or> r = Inl FsError"
    by blast
  show ?thesis
    using r rr resolve_out_not_empty [of "r_out opts"] unfolding run
    by (intro exI [of _ r] exI [of _ ls]) (cases ?out; simp)
qed



subsection \<open>The older request command, step by step\<close>

lemma legacy_request_cmd_rejected:
  assumes conn: "connect_attempts w = Some n"
    and rej: "request_reply w
      (legacy_request_of (toUpperCase (r_method opts)) (toLowerCase (r_path opts))) = Inl e"
  shows "legacy_request_cmd w opts tr =
      Some (Inl (Rejected e), tr @ ClientConnect
        # replicate n (ConsoleLog ''Waiting for League of Legends client...'')
        @ map FsStat (case resolve_out (r_out opts) of None \<Rightarrow> [] | Some p \<Rightarrow> [p])
        @ [ConsoleLog ''Waiting for League client...'',
           ConsoleLog (sending_message w (toUpperCase (r_method opts)) (toLowerCase (r_path opts))),
           ClientRequest
             (legacy_request_of (toUpperCase (r_method opts)) (toLowerCase (r_path opts)))])"
  by (cases "resolve_out (r_out opts)")
     (simp_all add: legacy_request_cmd_def Let_def io_then_def console_log_def
        client_connect_emit [OF conn] isDirectory_of_bind client_request_def rej await_def
        io_apply)

lemma legacy_request_cmd_trace:
  assumes conn: "connect_attempts w = Some n"
    and ok: "request_reply w
      (legacy_request_of (toUpperCase (r_method opts)) (toLowerCase (r_path opts))) = Inr res"
  shows "\<exists>r ls. (r = Inr () \<or> r = Inl FsError) \<and>
    legacy_request_cmd w opts tr =
      Some (r, tr @ ClientConnect
        # replicate n (ConsoleLog ''Waiting for League of Legends client...'')
        @ map FsStat (case resolve_out (r_out opts) of None \<Rightarrow> [] | Some p \<Rightarrow> [p])
        @ [ConsoleLog ''Waiting for League client...'',
           ConsoleLog (sending_message w (toUpperCase (r_method opts)) (toLowerCase (r_path opts))),
           ClientRequest
             (legacy_request_of (toUpperCase (r_method opts)) (toLowerCase (r_path opts)))]
        @ (case resolve_out (r_out opts) of
             None \<Rightarrow> []
           | Some p \<Rightarrow>
               [FsWriteFile
                  (if stat_reply w p = Some True
                   then path_join w p
                          (request_filename (toUpperCase (r_method opts))
                             (toLowerCase (r_path opts)) (now w))
                   else p)
                  (JSON_stringify w
                     (JObj [(''statusCode'', JNum (int (status res))), (''data'', data res)]) 4)])
        @ map ConsoleLog ls)"
proof -
  let ?m = "toUpperCase (r_method opts)"
  let ?p = "toLowerCase (r_path opts)"
  let ?out = "resolve_out (r_out opts)"
  let ?pre = "tr @ ClientConnect
        # replicate n (ConsoleLog ''Waiting for League of Legends client...'')
        @ map FsStat (case ?out of None \<Rightarrow> [] | Some p \<Rightarrow> [p])
        @ [ConsoleLog ''Waiting for League client...'', ConsoleLog (sending_message w ?m ?p),
           ClientRequest (legacy_request_of ?m ?p)]"
  let ?d = "case ?out of None \<Rightarrow> False | Some p \<Rightarrow> stat_reply w p = Some True"
  let ?text = "JSON_stringify w
     (JObj [(''statusCode'', JNum (int (status res))), (''data'', data res)]) 4"
  let ?k = "io_bind (console_log (''Status code: '' @ string_of_nat (status res)))
     (\<lambda>_. console_log (''Response content: '' @ JSON_stringify w (data res) 4))"
  have k: "\<exists>ls. ?k t = Some (Inr (), t @ map ConsoleLog ls)" for t
    by (rule exI [of _ "[_, _]"]) (simp add: console_log_def io_apply)
  have run: "legacy_request_cmd w opts tr =
     io_bind (write_out w ?out ?d (request_filename ?m ?p (now w)) ?text) (\<lambda>_. ?k) ?pre"
    by (cases ?out)
       (simp_all add: legacy_request_cmd_def Let_def io_then_def console_log_def
          client_connect_emit [OF conn] isDirectory_of_bind client_request_def ok await_def)
  from write_out_then [of ?k w ?out ?d "request_filename ?m ?p (now w)" ?text ?pre, OF k]
  obtain r ls where r: "io_bind (write_out w ?out ?d (request_filename ?m ?p (now w)) ?text)
        (\<lambda>_. ?k) ?pre =
     Some (r, ?pre @
       (case ?out of
          None \<Rightarrow> []
        | Some p \<Rightarrow>
            if p = [] then []
            else [FsWriteFile (if ?d then path_join w p (request_filename ?m ?p (now w)) else p)
                    ?text])
       @ map ConsoleLog ls)"
    and rr: "r = Inr () \<or> r = Inl FsError"
    by blast
  show ?thesis
    using r rr resolve_out_not_empty [of "r_out opts"] unfolding run
    by (intro exI [of _ r] exI [of _ ls]) (cases ?out; simp)
qed

subsection \<open>The listen command, step by step\<close>

lemma listen_setup_run:
  assumes conn: "connect_attempts w = Some n"
  shows "listen_setup w (emit e) opts tr =
     Some (Inr (resolve_out (l_out opts),
                case resolve_out (l_out opts) of
                  None \<Rightarrow> False
                | Some p \<Rightarrow> stat_reply w p = Some True),
           tr @ ClientConnect # replicate n e
             @ map FsStat (case resolve_out (l_out opts) of None \<Rightarrow> [] | Some p \<Rightarrow> [p])
             @ [AddLCUEventListener (l_name opts) (l_path opts) (l_type opts)])"
  by (cases "resolve_out (l_out opts)")
     (simp_all add: listen_setup_def Let_def io_then_def client_connect_emit [OF conn]
        isDirectory_of_bind io_apply)



lemma append_event_run:
  "p \<noteq> [] \<Longrightarrow>
   io_bind (append_event w (Some p) d ev) f tr =
     (if appendFile_ok w (if d then path_join w p ''lcu-websocket-events.txt'' else p)
      then f ()
      else io_throw FsError)
       (tr @ [FsAppendFile (if d then path_join w p ''lcu-websocket-events.txt'' else p)
                (JSON_stringify w ev 4 @ [CHR 0x0A])])"
  by (simp add: append_event_def fs_appendFile_def io_then_def)

lemma callback_appends:
  assumes "p \<noteq> []"
  shows "\<exists>r tr'. listen_callback w (Some p) d ev tr = Some (r, tr') \<and>
      appended tr' = appended tr @
        [(if d then path_join w p ''lcu-websocket-events.txt'' else p,
          JSON_stringify w ev 4 @ [CHR 0x0A])]"
    and "\<exists>r tr'. legacy_listen_callback w (Some p) d ev tr = Some (r, tr') \<and>
      appended tr' = appended tr @
        [(if d then path_join w p ''lcu-websocket-events.txt'' else p,
          JSON_stringify w ev 4 @ [CHR 0x0A])]"
  using assms
  by (simp_all add: listen_callback_def legacy_listen_callback_def io_then_def append_event_run
        log_def console_log_def io_apply)

lemma callback_no_output:
  "\<exists>r tr'. listen_callback w None d ev tr = Some (r, tr') \<and> appended tr' = appended tr"
  "\<exists>r tr'. legacy_listen_callback w None d ev tr = Some (r, tr') \<and> appended tr' = appended tr"
  by (simp_all add: listen_callback_def legacy_listen_callback_def io_then_def append_event_def
        log_def console_log_def io_apply)

lemma deliver_appends:
  assumes cb: "\<And>ev tr. \<exists>r tr'. cb ev tr = Some (r, tr') \<and> appended tr' = appended tr @ g ev"
  shows "\<exists>tr'. deliver cb evs tr = Some (Inr (), tr') \<and>
           appended tr' = appended tr @ concat (map g evs)"
proof (induction evs arbitrary: tr)
  case Nil
  show ?case by (simp add: io_apply)
next
  case (Cons ev evs)
  from cb [of ev tr] obtain r t where t: "cb ev tr = Some (r, t)" "appended t = appended tr @ g ev"
    by blast
  from Cons.IH [of t] obtain tr' where
    "deliver cb evs t = Some (Inr (), tr')" "appended tr' = appended t @ concat (map g evs)"
    by blast
  with t show ?case by simp
qed

text \<open>
  The run of the listen command over the events delivered: the script registers, and
  every event is handed to \<^verbatim>\<open>fs.appendFile\<close> once, for the same target.
\<close>

lemma listen_events_appends:
  assumes conn: "connect_attempts w = Some n"
  shows "\<exists>tr. listen_events w opts evs [] = Some (Inr (), tr) \<and>
      stat_paths tr = (case resolve_out (l_out opts) of None \<Rightarrow> [] | Some p \<Rightarrow> [p]) \<and>
      appended tr =
        (case resolve_out (l_out opts) of
           None \<Rightarrow> []
         | Some p \<Rightarrow>
             map (\<lambda>ev. (if stat_reply w p = Some True
                         then path_join w p ''lcu-websocket-events.txt'' else p,
                         JSON_stringify w ev 4 @ [CHR 0x0A])) evs)"
  and "\<exists>tr. legacy_listen_events w opts evs [] = Some (Inr (), tr) \<and>
      stat_paths tr = (case resolve_out (l_out opts) of None \<Rightarrow> [] | Some p \<Rightarrow> [p]) \<and>
      appended tr =
        (case resolve_out (l_out opts) of
           None \<Rightarrow> []
         | Some p \<Rightarrow>
             map (\<lambda>ev. (if stat_reply w p = Some True
                         then path_join w p ''lcu-websocket-events.txt'' else p,
                         JSON_stringify w ev 4 @ [CHR 0x0A])) evs)"
proof -
  let ?out = "resolve_out (l_out opts)"
  let ?d = "case ?out of None \<Rightarrow> False | Some p \<Rightarrow> stat_reply w p = Some True"
  let ?pre = "\<lambda>e. ClientConnect # replicate n (ConsoleLog e)
      @ map FsStat (case ?out of None \<Rightarrow> [] | Some p \<Rightarrow> [p])
      @ [AddLCUEventListener (l_name opts) (l_path opts) (l_type opts)]"
  let ?g = "\<lambda>ev. case ?out of
      None \<Rightarrow> []
    | Some p \<Rightarrow> [(if ?d then path_join w p ''lcu-websocket-events.txt'' else p,
                  JSON_stringify w ev 4 @ [CHR 0x0A])]"
  have run: "listen_events w opts evs [] =
      deliver (listen_callback w ?out ?d) evs (?pre ''[hasagi] Waiting for League of Legends client...'')"
    by (simp add: listen_events_def log_def io_bind_def listen_setup_run [OF conn])
  have lrun: "legacy_listen_events w opts evs [] =
      deliver (legacy_listen_callback w ?out ?d) evs (?pre ''Waiting for League of Legends client...'')"
    by (simp add: legacy_listen_events_def console_log_def io_bind_def listen_setup_run [OF conn])
  have cb: "\<exists>r tr'. listen_callback w ?out ?d ev tr = Some (r, tr') \<and>
      appended tr' = appended tr @ ?g ev" for ev tr
    using callback_appends(1) [of _ w ?d ev tr] callback_no_output(1) [of w ?d ev tr]
      resolve_out_not_empty [of "l_out opts"]
    by (cases ?out) auto
  have lcb: "\<exists>r tr'. legacy_listen_callback w ?out ?d ev tr = Some (r, tr') \<and>
      appended tr' = appended tr @ ?g ev" for ev tr
    using callback_appends(2) [of _ w ?d ev tr] callback_no_output(2) [of w ?d ev tr]
      resolve_out_not_empty [of "l_out opts"]
    by (cases ?out) auto
  have g: "concat (map ?g evs) =
      (case ?out of
         None \<Rightarrow> []
       | Some p \<Rightarrow>
           map (\<lambda>ev. (if stat_reply w p = Some True
                       then path_join w p ''lcu-websocket-events.txt'' else p,
                       JSON_stringify w ev 4 @ [CHR 0x0A])) evs)"
    by (cases ?out) (simp_all add: concat_map_singleton)
  have st: "stat_paths tr' = stat_paths tr" if "deliver cb evs tr = Some (r, tr')"
    and "\<And>ev t r t'. cb ev t = Some (r, t') \<Longrightarrow> stat_paths t' = stat_paths t"
    for cb :: "json \<Rightarrow> unit io" and tr r tr'
    using that
  proof (induction evs arbitrary: tr)
    case Nil
    then show ?case by (simp add: io_apply)
  next
    case (Cons ev evs)
    then show ?case by (auto split: option.splits prod.splits)
  qed
  have keep: "stat_paths t' = stat_paths t" if "listen_callback w ?out ?d ev t = Some (r, t')"
    for ev t r t'
    using that
    by (auto simp: listen_callback_def append_event_def fs_appendFile_def io_then_def log_def
          io_bind_def emit_def io_return_def io_throw_def
          split: option.splits if_splits)
  have lkeep: "stat_paths t' = stat_paths t" if "legacy_listen_callback w ?out ?d ev t = Some (r, t')"
    for ev t r t'
    using that
    by (auto simp: legacy_listen_callback_def append_event_def fs_appendFile_def io_then_def
          console_log_def io_bind_def emit_def io_return_def io_throw_def
          split: option.splits if_splits)
  from deliver_appends [of "listen_callback w ?out ?d" ?g evs
      "?pre ''[hasagi] Waiting for League of Legends client...''", OF cb]
  obtain tr where tr: "deliver (listen_callback w ?out ?d) evs
        (?pre ''[hasagi] Waiting for League of Legends client...'') = Some (Inr (), tr)"
      "appended tr = appended (?pre ''[hasagi] Waiting for League of Legends client...'')
         @ concat (map ?g evs)"
    by blast
  from st [OF tr(1) keep]
  have "stat_paths tr = (case ?out of None \<Rightarrow> [] | Some p \<Rightarrow> [p])"
    by (cases ?out) simp_all
  with tr show "\<exists>tr. listen_events w opts evs [] = Some (Inr (), tr) \<and>
      stat_paths tr = (case ?out of None \<Rightarrow> [] | Some p \<Rightarrow> [p]) \<and>
      appended tr =
        (case ?out of
           None \<Rightarrow> []
         | Some p \<Rightarrow>
             map (\<lambda>ev. (if stat_reply w p = Some True
                         then path_join w p ''lcu-websocket-events.txt'' else p,
                         JSON_stringify w ev 4 @ [CHR 0x0A])) evs)"
    unfolding run g [symmetric] by (cases ?out) auto
  from deliver_appends [of "legacy_listen_callback w ?out ?d" ?g evs
      "?pre ''Waiting for League of Legends client...''", OF lcb]
  obtain tr where tr: "deliver (legacy_listen_callback w ?out ?d) evs
        (?pre ''Waiting for League of Legends client...'') = Some (Inr (), tr)"
      "appended tr = appended (?pre ''Waiting for League of Legends client...'')
         @ concat (map ?g evs)"
    by blast
  from st [OF tr(1) lkeep]
  have "stat_paths tr = (case ?out of None \<Rightarrow> [] | Some p \<Rightarrow> [p])"
    by (cases ?out) simp_all
  with tr show "\<exists>tr. legacy_listen_events w opts evs [] = Some (Inr (), tr) \<and>
      stat_paths tr = (case ?out of None \<Rightarrow> [] | Some p \<Rightarrow> [p]) \<and>
      appended tr =
        (case ?out of
           None \<Rightarrow> []
         | Some p \<Rightarrow>
             map (\<lambda>ev. (if stat_reply w p = Some True
                         then path_join w p ''lcu-websocket-events.txt'' else p,
                         JSON_stringify w ev 4 @ [CHR 0x0A])) evs)"
    unfolding lrun g [symmetric] by (cases ?out) auto
qed

subsection \<open>The schema command, step by step\<close>

lemma fetched_simps [simp]:
  "fetched [] = []"
  "fetched (e # tr) = fetch_by e @ fetched tr"
  "fetched (tr @ tr') = fetched tr @ fetched tr'"
  by (simp_all add: fetched_def)

lemma derived_simps [simp]:
  "derived [] = []"
  "derived (e # tr) = swagger_by e @ derived tr"
  "derived (tr @ tr') = derived tr @ derived tr'"
  by (simp_all add: derived_def)

lemma created_simps [simp]:
  "created [] = []"
  "created (e # tr) = mkdir_by e @ created tr"
  "created (tr @ tr') = created tr @ created tr'"
  by (simp_all add: created_def)

text \<open>The schema command with only the Swagger target, along each way it can go.\<close>

lemma schema_swagger_only_run:
  assumes "s_raw opts = None" "s_typescript opts = None" "s_swagger opts = Some d"
  shows "schema_cmd w opts tr =
    (case extendedHelp_reply w True of
       None \<Rightarrow> Some (Inl SchemaError, tr @ [GetExtendedHelp True])
     | Some help \<Rightarrow>
         (case swagger_reply w (extendedSchema help) of
            None \<Rightarrow>
              Some (Inl SchemaError, tr @ [GetExtendedHelp True, GetSwagger (extendedSchema help)])
          | Some obj \<Rightarrow>
              if \<not> mkdir_ok w (schema_out d)
              then Some (Inl FsError,
                     tr @ [GetExtendedHelp True, GetSwagger (extendedSchema help),
                           FsMkdir (schema_out d)])
              else Some (if writeFile_ok w (path_join w (schema_out d) ''swagger.json'')
                         then Inr () else Inl FsError,
                     tr @ [GetExtendedHelp True, GetSwagger (extendedSchema help),
                           FsMkdir (schema_out d),
                           FsWriteFile (path_join w (schema_out d) ''swagger.json'')
                             (JSON_stringify w obj 4)])))"
  using assms
  by (simp add: schema_cmd_def Let_def getExtendedHelp_def getSwagger_def write_raw_def
        write_swagger_def write_typescript_def fs_mkdir_def fs_writeFile_def io_then_def
        io_apply split: option.splits)

section \<open>The claims\<close>

subsection \<open>C1: the result of a request\<close>



subsection \<open>C2: the output option\<close>



subsection \<open>C3: the file written into a directory\<close>

text \<open>
  C3, as the specification states it: for a request whose \<^verbatim>\<open>--out\<close> target is an
  existing directory, the file written is named
  \<^verbatim>\<open>{METHOD}-{path with '/' replaced by '_'}-{timestamp}.json\<close>.  The script drops the
  first character of the path before it replaces the slashes, so the name the
  specification gives is not the name written: for \<^verbatim>\<open>get /a/b\<close> at time 5 into
  \<^verbatim>\<open>dir\<close> the script writes \<^verbatim>\<open>dir/GET-a_b-5.json\<close>, where the specification's name is
  \<^verbatim>\<open>GET-_a_b-5.json\<close>.
\<close>

theorem request_filename_counterexample:
  "(\<exists>r tr. request_cmd example_world
             \<lparr>r_method = ''get'', r_path = ''/a/b'', r_body = None, r_query = None,
              r_out = Some ''dir''\<rparr> [] = Some (r, tr)
        \<and> map fst (written tr) = [''dir/GET-a_b-5.json'']
        \<and> map fst (written tr) \<noteq>
            [path_join example_world ''dir''
               (spec_request_filename ''get'' ''/a/b'' (now example_world))])
   \<and> spec_request_filename ''get'' ''/a/b'' (now example_world) = ''GET-_a_b-5.json''"
proof -
  let ?opts = "\<lparr>r_method = ''get'', r_path = ''/a/b'', r_body = None, r_query = None,
                r_out = Some ''dir''\<rparr>"
  have conn: "connect_attempts example_world = Some 1"
    by (simp add: example_world_def)
  have name: "request_filename (toUpperCase ''get'') ''/a/b'' (now example_world) = ''GET-a_b-5.json''"
    by (simp add: request_filename_def toUpperCase_def toUpperCase_char_def replaceAll_def
          substring_def example_world_def string_of_nat.simps)
  have spec: "spec_request_filename ''get'' ''/a/b'' (now example_world) = ''GET-_a_b-5.json''"
    by (simp add: spec_request_filename_def toUpperCase_def toUpperCase_char_def replaceAll_def
          example_world_def string_of_nat.simps)
  have join: "path_join example_world ''dir'' f = ''dir/'' @ f" for f
    by (simp add: example_world_def)
  have stat: "stat_reply example_world ''dir'' = Some True"
    by (simp add: example_world_def)
  from request_cmd_trace [OF conn, of ?opts None None "[]"]
  obtain r tr where "request_cmd example_world ?opts [] = Some (r, tr)"
    and "map fst (written tr) = [''dir/GET-a_b-5.json'']"
    by (auto simp: resolve_out_def stat name join)
  then show ?thesis
    by (auto simp: spec join)
qed

text \<open>
  C3, amended: for a request (whose client connects, and whose JSON options parse)
  with an existing directory as \<^verbatim>\<open>--out\<close> target and a request that succeeds, exactly
  one file is written.  It lies in that directory, its name is the upper-cased method,
  a dash, the path without its first character and with every remaining slash replaced
  by an underscore, a dash, the current timestamp and \<^verbatim>\<open>.json\<close>; its content is the
  record of \<^verbatim>\<open>statusCode\<close> and \<^verbatim>\<open>body\<close>, serialised with indentation 4.  The path part
  is the specification's with its first character dropped.
\<close>

theorem request_directory_output:
  assumes conn: "connect_attempts w = Some n"
    and body: "parse_option w (r_body opts) = io_return body"
    and query: "parse_option w (r_query opts) = io_return query"
    and out: "resolve_out (r_out opts) = Some dir"
    and dir: "stat_reply w dir = Some True"
    and ok: "request_reply w
      (request_of (toUpperCase (r_method opts)) (r_path opts) body query) = Inr res"
  shows "(\<exists>r tr. request_cmd w opts [] = Some (r, tr) \<and>
      written tr =
        [(path_join w dir
            (toUpperCase (r_method opts) @ ''-''
               @ replaceAll CHR ''/'' CHR ''_'' (drop 1 (r_path opts)) @ ''-''
               @ string_of_nat (now w) @ ''.json''),
          JSON_stringify w
            (JObj [(''statusCode'', JNum (int (status res))), (''body'', data res)]) 4)])
    \<and> replaceAll CHR ''/'' CHR ''_'' (drop 1 (r_path opts)) =
        drop 1 (replaceAll CHR ''/'' CHR ''_'' (r_path opts))"
proof
  from request_cmd_trace [OF conn body query, of "[]"]
  show "\<exists>r tr. request_cmd w opts [] = Some (r, tr) \<and>
      written tr =
        [(path_join w dir
            (toUpperCase (r_method opts) @ ''-''
               @ replaceAll CHR ''/'' CHR ''_'' (drop 1 (r_path opts)) @ ''-''
               @ string_of_nat (now w) @ ''.json''),
          JSON_stringify w
            (JObj [(''statusCode'', JNum (int (status res))), (''body'', data res)]) 4)]"
    by (auto simp: out dir ok then_result_def stringify_result_def request_filename_def
          substring_def)
next
  show "replaceAll CHR ''/'' CHR ''_'' (drop 1 (r_path opts)) =
        drop 1 (replaceAll CHR ''/'' CHR ''_'' (r_path opts))"
    by (simp add: replaceAll_def drop_map)
qed

text \<open>The run of \<^verbatim>\<open>get /a/b -o dir\<close> in the concrete world.\<close>

theorem request_directory_output_witness:
  "\<exists>r tr. request_cmd example_world
            \<lparr>r_method = ''get'', r_path = ''/a/b'', r_body = None, r_query = None,
             r_out = Some ''dir''\<rparr> [] = Some (r, tr)
      \<and> written tr = [(''dir/GET-a_b-5.json'', ''{statusCode;body;}'')]"
proof -
  let ?opts = "\<lparr>r_method = ''get'', r_path = ''/a/b'', r_body = None, r_query = None,
                r_out = Some ''dir''\<rparr>"
  have conn: "connect_attempts example_world = Some 1"
    by (simp add: example_world_def)
  have body: "parse_option example_world (r_body ?opts) = io_return None"
    and query: "parse_option example_world (r_query ?opts) = io_return None"
    by simp_all
  have out: "resolve_out (r_out ?opts) = Some ''dir''"
    by (simp add: resolve_out_def)
  have stat: "stat_reply example_world ''dir'' = Some True"
    by (simp add: example_world_def)
  have ok: "request_reply example_world
      (request_of (toUpperCase (r_method ?opts)) (r_path ?opts) None None) =
      Inr \<lparr>status = 200, data = JBool True\<rparr>"
    by (simp add: example_world_def)
  have name: "path_join example_world ''dir''
      (toUpperCase (r_method ?opts) @ ''-''
         @ replaceAll CHR ''/'' CHR ''_'' (drop 1 (r_path ?opts)) @ ''-''
         @ string_of_nat (now example_world) @ ''.json'') = ''dir/GET-a_b-5.json''"
    by (simp add: toUpperCase_def toUpperCase_char_def replaceAll_def example_world_def
          string_of_nat.simps)
  have content: "JSON_stringify example_world
      (JObj [(''statusCode'', JNum (int (status \<lparr>status = 200, data = JBool True\<rparr>))),
             (''body'', data \<lparr>status = 200, data = JBool True\<rparr>)]) 4 = ''{statusCode;body;}''"
    by (simp add: example_world_def)
  from request_directory_output [OF conn body query out stat ok]
  show ?thesis
    unfolding name content by blast
qed

subsection \<open>C4: the schema command with only the Swagger target\<close>

text \<open>
  C4.  For a schema invocation with \<^verbatim>\<open>--swagger\<close> and neither \<^verbatim>\<open>--raw\<close> nor
  \<^verbatim>\<open>--typescript\<close>: in every world the extended schema is fetched exactly once, the
  Swagger document is derived exactly once from the extended schema that the fetch
  returned (and not at all when the fetch fails), at most the resolved target directory
  is created, and no file but \<^verbatim>\<open>swagger.json\<close>
  in it is written, so none of the raw schema files.  When the fetch, the derivation,
  the creation of the directory and the write succeed, the run is exactly: one fetch,
  one derivation from the fetched extended schema, the creation of the directory, and
  the write of the derived document, serialised with indentation 4, to
  \<^verbatim>\<open>swagger.json\<close>.
\<close>

theorem schema_swagger_only:
  assumes raw: "s_raw opts = None"
    and ts: "s_typescript opts = None"
    and sw: "s_swagger opts = Some d"
  shows "(\<exists>r tr. schema_cmd w opts [] = Some (r, tr)
        \<and> fetched tr = [True]
        \<and> derived tr =
            (case extendedHelp_reply w True of None \<Rightarrow> [] | Some h \<Rightarrow> [extendedSchema h])
        \<and> set (created tr) \<subseteq> {if d = [] then ''./'' else d}
        \<and> set (map fst (written tr)) \<subseteq>
            {path_join w (if d = [] then ''./'' else d) ''swagger.json''})
    \<and> (extendedHelp_reply w True = Some help
        \<and> swagger_reply w (extendedSchema help) = Some obj
        \<and> mkdir_ok w (if d = [] then ''./'' else d)
        \<and> writeFile_ok w (path_join w (if d = [] then ''./'' else d) ''swagger.json'') \<longrightarrow>
        schema_cmd w opts [] =
          Some (Inr (),
            [GetExtendedHelp True,
             GetSwagger (extendedSchema help),
             FsMkdir (if d = [] then ''./'' else d),
             FsWriteFile (path_join w (if d = [] then ''./'' else d) ''swagger.json'')
               (JSON_stringify w obj 4)]))"
proof -
  have out: "schema_out d = (if d = [] then ''./'' else d)"
    by (simp add: schema_out_def)
  show ?thesis
    unfolding schema_swagger_only_run [OF raw ts sw, of w "[]"] out
    by (auto split: option.splits)
qed

text \<open>The run of \<^verbatim>\<open>schema --swagger docs\<close> in the concrete world.\<close>

theorem schema_swagger_only_witness:
  "schema_cmd example_world
     \<lparr>s_typescript = None, s_tsnamespace = None, s_swagger = Some ''docs'', s_raw = None\<rparr> [] =
   Some (Inr (),
     [GetExtendedHelp True, GetSwagger (JStr ''e''), FsMkdir ''docs'',
      FsWriteFile ''docs/swagger.json'' ''{swagger;}''])"
proof -
  let ?opts = "\<lparr>s_typescript = None, s_tsnamespace = None, s_swagger = Some ''docs'',
                s_raw = None\<rparr>"
  let ?schemas = "\<lparr>consoleSchema = JStr ''c'', extendedSchema = JStr ''e'', fullSchema = JStr ''f''\<rparr>"
  have replies: "extendedHelp_reply example_world True = Some ?schemas"
    "swagger_reply example_world (extendedSchema ?schemas) = Some (JObj [(''swagger'', JStr ''e'')])"
    "mkdir_ok example_world ''docs''"
    "writeFile_ok example_world (path_join example_world ''docs'' ''swagger.json'')"
    by (simp_all add: example_world_def)
  have vals: "path_join example_world ''docs'' ''swagger.json'' = ''docs/swagger.json''"
    "JSON_stringify example_world (JObj [(''swagger'', JStr ''e'')]) 4 = ''{swagger;}''"
    by (simp_all add: example_world_def)
  from schema_swagger_only [of ?opts "''docs''" example_world ?schemas "JObj [(''swagger'', JStr ''e'')]"]
    replies
  show ?thesis
    by (simp add: vals)
qed

subsection \<open>C5: the schema command without a target\<close>

text \<open>
  C5.  A schema invocation with none of \<^verbatim>\<open>--raw\<close>, \<^verbatim>\<open>--swagger\<close> and
  \<^verbatim>\<open>--typescript\<close> does nothing: the command returns with the trace it was given, so
  no schema is fetched, no Swagger document derived, no directory created and no file
  written, and the script goes straight to \<^verbatim>\<open>process.exit()\<close>.
\<close>

theorem schema_without_target_does_nothing:
  assumes "s_raw opts = None" and "s_swagger opts = None" and "s_typescript opts = None"
  shows "schema_cmd w opts tr = Some (Inr (), tr)
    \<and> main w (Schema opts) [] = Some (Inr (), [ProcessExit])
    \<and> legacy_main w (Schema opts) [] = Some (Inr (), [ProcessExit])
    \<and> fetched [ProcessExit] = [] \<and> derived [ProcessExit] = []
    \<and> created [ProcessExit] = [] \<and> written [ProcessExit] = []"
proof -
  have cmd: "schema_cmd w opts = io_return ()"
    using assms by (simp add: schema_cmd_def)
  then have "main w (Schema opts) [] = Some (Inr (), [ProcessExit])"
    "legacy_main w (Schema opts) [] = Some (Inr (), [ProcessExit])"
    by (simp_all add: main_def legacy_main_def io_then_def process_exit_def io_apply)
  with cmd show ?thesis
    by (simp add: io_apply)
qed

text \<open>Only a namespace given: still nothing happens.\<close>

theorem schema_without_target_does_nothing_witness:
  "main example_world
     (Schema \<lparr>s_typescript = None, s_tsnamespace = Some ''LCU'', s_swagger = None,
              s_raw = None\<rparr>) [] = Some (Inr (), [ProcessExit])"
  using schema_without_target_does_nothing
    [of "\<lparr>s_typescript = None, s_tsnamespace = Some ''LCU'', s_swagger = None, s_raw = None\<rparr>"
        example_world "[]"]
  by simp

subsection \<open>C6: one append per event\<close>



subsection \<open>C7: the listen command never returns\<close>



subsection \<open>C8: the two versions of the request command\<close>

text \<open>
  C8.  The two versions of the script differ on the request command.  With a client
  that connects (and, for the current version, JSON options that parse), the older
  version sends the lower-cased path and the current one the path as given; these
  differ whenever the path holds an upper-case letter.  The older version has one way
  to treat what the client answers: a response, whatever its status, is written and
  printed as its raw status and data, and a rejection, whatever its class, escapes as
  an exception before anything is written.  The current version lets no rejection
  escape, turns a protocol error and a transport error into different results and
  reports them differently.
\<close>

theorem request_versions_differ:
  assumes conn: "connect_attempts w = Some n"
    and body: "parse_option w (r_body opts) = io_return body"
    and query: "parse_option w (r_query opts) = io_return query"
  shows "(\<exists>r tr. request_cmd w opts [] = Some (r, tr) \<and>
           map req_url (requests tr) = [r_path opts])
    \<and> (\<exists>r tr. legacy_request_cmd w opts [] = Some (r, tr) \<and>
           map req_url (requests tr) = [toLowerCase (r_path opts)])
    \<and> ((\<exists>c \<in> set (r_path opts). c \<in> set ''ABCDEFGHIJKLMNOPQRSTUVWXYZ'') \<longrightarrow>
           toLowerCase (r_path opts) \<noteq> r_path opts)
    \<and> (request_reply w
          (legacy_request_of (toUpperCase (r_method opts)) (toLowerCase (r_path opts))) = Inl err \<longrightarrow>
        (\<exists>tr. legacy_request_cmd w opts [] = Some (Inl (Rejected err), tr) \<and> written tr = []))
    \<and> (request_reply w
          (legacy_request_of (toUpperCase (r_method opts)) (toLowerCase (r_path opts))) = Inr res \<longrightarrow>
        (\<exists>r tr. legacy_request_cmd w opts [] = Some (r, tr) \<and>
           map snd (written tr) =
             (case r_out opts of
                None \<Rightarrow> []
              | Some s \<Rightarrow>
                  [JSON_stringify w
                     (JObj [(''statusCode'', JNum (int (status res))), (''data'', data res)]) 4])))
    \<and> (\<forall>e tr. request_cmd w opts [] \<noteq> Some (Inl (Rejected e), tr))
    \<and> then_result (Inl (LCUError lerr)) \<noteq> then_result (Inl (RequestError rerr))
    \<and> report w (then_result (Inl (LCUError lerr))) []
         \<noteq> report w (then_result (Inl (RequestError rerr))) []"
proof (intro conjI impI allI)
  from request_cmd_trace [OF conn body query, of "[]"]
  show "\<exists>r tr. request_cmd w opts [] = Some (r, tr) \<and> map req_url (requests tr) = [r_path opts]"
    by (cases "resolve_out (r_out opts)") (auto simp: request_of_def)
next
  let ?req = "legacy_request_of (toUpperCase (r_method opts)) (toLowerCase (r_path opts))"
  show "\<exists>r tr. legacy_request_cmd w opts [] = Some (r, tr) \<and>
           map req_url (requests tr) = [toLowerCase (r_path opts)]"
  proof (cases "request_reply w ?req")
    case (Inl e)
    from legacy_request_cmd_rejected [OF conn Inl, of "[]"] show ?thesis
      by (cases "resolve_out (r_out opts)") (auto simp: legacy_request_of_def)
  next
    case (Inr res)
    from legacy_request_cmd_trace [OF conn Inr, of "[]"] show ?thesis
      by (cases "resolve_out (r_out opts)") (auto simp: legacy_request_of_def)
  qed
next
  assume "\<exists>c \<in> set (r_path opts). c \<in> set ''ABCDEFGHIJKLMNOPQRSTUVWXYZ''"
  then obtain c where c: "c \<in> set (r_path opts)" "c \<in> set ''ABCDEFGHIJKLMNOPQRSTUVWXYZ''"
    by blast
  from c(2) have "toLowerCase_char c \<noteq> c"
    by (auto simp: toLowerCase_char_def)
  with c(1) show "toLowerCase (r_path opts) \<noteq> r_path opts"
    by (auto simp: toLowerCase_def map_eq_conv [of _ _ id, simplified])
next
  assume rej: "request_reply w
      (legacy_request_of (toUpperCase (r_method opts)) (toLowerCase (r_path opts))) = Inl err"
  from legacy_request_cmd_rejected [OF conn rej, of "[]"]
  show "\<exists>tr. legacy_request_cmd w opts [] = Some (Inl (Rejected err), tr) \<and> written tr = []"
    by (cases "resolve_out (r_out opts)") auto
next
  assume ok: "request_reply w
      (legacy_request_of (toUpperCase (r_method opts)) (toLowerCase (r_path opts))) = Inr res"
  from legacy_request_cmd_trace [OF conn ok, of "[]"]
  show "\<exists>r tr. legacy_request_cmd w opts [] = Some (r, tr) \<and>
           map snd (written tr) =
             (case r_out opts of
                None \<Rightarrow> []
              | Some s \<Rightarrow>
                  [JSON_stringify w
                     (JObj [(''statusCode'', JNum (int (status res))), (''data'', data res)]) 4])"
    by (cases "r_out opts") (auto simp: resolve_out_def)
next
  fix e tr
  from request_cmd_trace [OF conn body query, of "[]"]
  show "request_cmd w opts [] \<noteq> Some (Inl (Rejected e), tr)"
    by auto
next
  show "then_result (Inl (LCUError lerr)) \<noteq> then_result (Inl (RequestError rerr))"
    by (simp add: then_result_def)
next
  have "\<exists>l. report w (RequestErr rerr) [] = Some (Inr (), [ConsoleLog l])"
    by (simp add: report_def log_def io_apply)
  moreover have "\<exists>a b c tr. report w (LCUErr lerr) [] = Some (Inr (), a # b # c # tr)"
    by (cases "lcu_implementationDetails lerr")
       (simp_all add: report_def log_def io_then_def io_apply)
  ultimately show "report w (then_result (Inl (LCUError lerr))) []
         \<noteq> report w (then_result (Inl (RequestError rerr))) []"
    by (auto simp: then_result_def)
qed

text \<open>The path \<^verbatim>\<open>/Lol-Summoner\<close>: sent as it is by one version, lower-cased by the other.\<close>

theorem request_versions_differ_witness:
  "(\<exists>r tr. request_cmd example_world
             \<lparr>r_method = ''get'', r_path = ''/Lol-Summoner'', r_body = None, r_query = None,
              r_out = None\<rparr> [] = Some (r, tr)
        \<and> map req_url (requests tr) = [''/Lol-Summoner''])
   \<and> (\<exists>r tr. legacy_request_cmd example_world
             \<lparr>r_method = ''get'', r_path = ''/Lol-Summoner'', r_body = None, r_query = None,
              r_out = None\<rparr> [] = Some (r, tr)
        \<and> map req_url (requests tr) = [''/lol-summoner''])"
proof -
  let ?opts = "\<lparr>r_method = ''get'', r_path = ''/Lol-Summoner'', r_body = None, r_query = None,
                r_out = None\<rparr>"
  have conn: "connect_attempts example_world = Some 1"
    by (simp add: example_world_def)
  have body: "parse_option example_world (r_body ?opts) = io_return None"
    and query: "parse_option example_world (r_query ?opts) = io_return None"
    by simp_all
  have lower: "toLowerCase (r_path ?opts) = ''/lol-summoner''"
    by (simp add: toLowerCase_def toLowerCase_char_def)
  from request_versions_differ [OF conn body query] lower
  show ?thesis by simp
qed

subsection \<open>C9: the body and query options are parsed first\<close>



subsection \<open>C10: the fixed file name of the listen command\<close>

text \<open>
  C10.  For the listen command (with a client that connects) whose resolved \<^verbatim>\<open>--out\<close>
  target is an existing directory, every event is appended to the file
  \<^verbatim>\<open>lcu-websocket-events.txt\<close> inside that directory, in both versions of the script,
  whatever the name, path and type options are.
\<close>

theorem listen_directory_file_name:
  assumes conn: "connect_attempts w = Some n"
    and out: "resolve_out (l_out opts) = Some dir"
    and dir: "stat_reply w dir = Some True"
  shows "(\<exists>tr. listen_events w opts events [] = Some (Inr (), tr) \<and>
           map fst (appended tr) =
             replicate (length events) (path_join w dir ''lcu-websocket-events.txt''))
    \<and> (\<exists>tr. legacy_listen_events w opts events [] = Some (Inr (), tr) \<and>
           map fst (appended tr) =
             replicate (length events) (path_join w dir ''lcu-websocket-events.txt''))"
  using listen_events_appends [OF conn, of opts events]
  by (auto simp: out dir comp_def map_replicate_const)

text \<open>Three events into the existing directory \<^verbatim>\<open>dir\<close>, with a name filter and types.\<close>

theorem listen_directory_file_name_witness:
  "(\<exists>tr. listen_events example_world
           \<lparr>l_name = Some ''OnJsonApiEvent'', l_path = None,
            l_type = Some [''Create'', ''Update''], l_out = Some ''dir''\<rparr>
           [JNull, JNull, JBool False] [] = Some (Inr (), tr)
      \<and> map fst (appended tr) =
          [''dir/lcu-websocket-events.txt'', ''dir/lcu-websocket-events.txt'',
           ''dir/lcu-websocket-events.txt''])
   \<and> (\<exists>tr. legacy_listen_events example_world
           \<lparr>l_name = Some ''OnJsonApiEvent'', l_path = None,
            l_type = Some [''Create'', ''Update''], l_out = Some ''dir''\<rparr>
           [JNull, JNull, JBool False] [] = Some (Inr (), tr)
      \<and> map fst (appended tr) =
          [''dir/lcu-websocket-events.txt'', ''dir/lcu-websocket-events.txt'',
           ''dir/lcu-websocket-events.txt''])"
proof -
  let ?opts = "\<lparr>l_name = Some ''OnJsonApiEvent'', l_path = None,
                l_type = Some [''Create'', ''Update''], l_out = Some ''dir''\<rparr>"
  have conn: "connect_attempts example_world = Some 1"
    by (simp add: example_world_def)
  have out: "resolve_out (l_out ?opts) = Some ''dir''"
    by (simp add: resolve_out_def)
  have stat: "stat_reply example_world ''dir'' = Some True"
    and join: "path_join example_world ''dir'' ''lcu-websocket-events.txt'' =
      ''dir/lcu-websocket-events.txt''"
    by (simp_all add: example_world_def)
  from listen_directory_file_name [OF conn out stat, of "[JNull, JNull, JBool False]"]
  show ?thesis
    by (simp add: join numeral_3_eq_3)
qed

end
